theory Spec2Isabelle
  imports Complex_Main "HOL-Library.Word"
begin

section \<open>The JNI boundary of \<open>mlt_wrapper.cpp\<close>\<close>

text \<open>
  The file \<open>app/src/main/cpp/mlt_wrapper.cpp\<close> exports eleven native methods of the Java
  class \<open>uc.ucworks.videosnap.MltHelper\<close>. Nine are declared \<open>void\<close> and have an empty
  body; two are declared \<open>jstring\<close> and return a string literal through
  \<open>env->NewStringUTF\<close>. The include of the multimedia library and the helper
  \<open>apply_filter_chain\<close> are commented out, so they are no part of the program.
\<close>

subsection \<open>JNI values\<close>

text \<open>
  A \<open>jobject\<close> is a reference: null, a \<open>java.lang.String\<close>, an array of references or
  any other object (opaque, by its identity). \<open>jstring\<close> and \<open>jobjectArray\<close> are
  \<open>jobject\<close> in JNI, so a caller can pass null for either.
\<close>

datatype jobject = JNull | JString string | JArray "jobject list" | JObject nat

type_synonym jstring = jobject
type_synonym jobjectArray = jobject

text \<open>\<open>jint\<close> is a 32-bit integer.\<close>

type_synonym jint = "32 word"

text \<open>
  \<open>jdouble\<close> is an IEEE-754 binary64. The wrapper never computes with one, so a value is
  kept as what it denotes: a rational (every finite double is one), an infinity or NaN.
\<close>

datatype jdouble = Finite rat | PosInf | NegInf | NaN

subsection \<open>The state a native method can reach\<close>

text \<open>
  The methods take paths of media files, so the state is the file system: which path
  holds which media file. A media file is its container metadata and its frames; a frame
  is a list of RGB pixels.
\<close>

type_synonym frame = "(nat \<times> nat \<times> nat) list"

record media =
  duration :: rat
  frameWidth :: nat
  frameHeight :: nat
  frameRate :: rat
  frames :: "frame list"

record world =
  files :: "string \<rightharpoonup> media"

text \<open>
  A native method returns normally or leaves with a failure. The source declares no error
  type and throws nowhere; the kinds below are the taxonomy the specification names,
  listed so that "fails with kind \<open>k\<close>" can be said of a call: \<open>Inl k\<close> is that failure,
  \<open>Inr\<close> a normal return with the value returned and the state left behind.
\<close>

datatype error_kind =
    NotFound | UnsupportedFormat | UnsupportedFilter | InvalidParameter | InvalidRange
  | EmptyInput | EncodeFailure | DecodeFailure | DiskWriteFailure | Cancelled | TrackingLost

subsection \<open>The eleven native methods\<close>

text \<open>\<open>env->NewStringUTF(s)\<close> makes a Java string of the C string \<open>s\<close>.\<close>

definition NewStringUTF :: "string \<Rightarrow> jstring" where
  "NewStringUTF s = JString s"

text \<open>
  Each definition takes the state reached through \<open>env\<close>, the receiver \<open>this\<close> and the
  parameters of the C++ function, in its order and under its names.
\<close>

definition getVideoInfoNative :: "world \<Rightarrow> jobject \<Rightarrow> jstring \<Rightarrow> error_kind + jstring \<times> world" where
  "getVideoInfoNative env this filePath = Inr (NewStringUTF ''Duration: 0'', env)"

definition trimVideoNative ::
  "world \<Rightarrow> jobject \<Rightarrow> jstring \<Rightarrow> jstring \<Rightarrow> jdouble \<Rightarrow> jdouble \<Rightarrow> error_kind + world" where
  "trimVideoNative env this inPath outPath start end = Inr env"

definition splitVideoNative ::
  "world \<Rightarrow> jobject \<Rightarrow> jstring \<Rightarrow> jstring \<Rightarrow> jstring \<Rightarrow> jdouble \<Rightarrow> error_kind + world" where
  "splitVideoNative env this inPath outPath1 outPath2 splitPoint = Inr env"

definition applyEffectNative ::
  "world \<Rightarrow> jobject \<Rightarrow> jstring \<Rightarrow> jstring \<Rightarrow> jstring \<Rightarrow> error_kind + world" where
  "applyEffectNative env this inPath outPath effect = Inr env"

definition exportVideoNative ::
  "world \<Rightarrow> jobject \<Rightarrow> jstring \<Rightarrow> jstring \<Rightarrow> jobject \<Rightarrow> error_kind + world" where
  "exportVideoNative env this inPath outPath preset = Inr env"

definition mixAudioNative ::
  "world \<Rightarrow> jobject \<Rightarrow> jobjectArray \<Rightarrow> jstring \<Rightarrow> error_kind + world" where
  "mixAudioNative env this inPaths outPath = Inr env"

definition applyKeyframeEffectNative ::
  "world \<Rightarrow> jobject \<Rightarrow> jstring \<Rightarrow> jstring \<Rightarrow> jstring \<Rightarrow> jobjectArray \<Rightarrow> error_kind + world" where
  "applyKeyframeEffectNative env this inPath outPath property keyframes = Inr env"

definition applyTextOverlayNative ::
  "world \<Rightarrow> jobject \<Rightarrow> jstring \<Rightarrow> jstring \<Rightarrow> jstring \<Rightarrow> jint \<Rightarrow> jint \<Rightarrow> jint \<Rightarrow> jint
    \<Rightarrow> error_kind + world" where
  "applyTextOverlayNative env this inPath outPath text x y fontSize color = Inr env"

definition applyPiPNative ::
  "world \<Rightarrow> jobject \<Rightarrow> jstring \<Rightarrow> jstring \<Rightarrow> jstring \<Rightarrow> jint \<Rightarrow> jint \<Rightarrow> jint \<Rightarrow> jint
    \<Rightarrow> error_kind + world" where
  "applyPiPNative env this backgroundPath foregroundPath outPath x y width height = Inr env"

definition applySpeedRampNative ::
  "world \<Rightarrow> jobject \<Rightarrow> jstring \<Rightarrow> jstring \<Rightarrow> jstring \<Rightarrow> error_kind + world" where
  "applySpeedRampNative env this inPath outPath speedMap = Inr env"

definition trackMotionNative ::
  "world \<Rightarrow> jobject \<Rightarrow> jstring \<Rightarrow> jstring \<Rightarrow> jint \<Rightarrow> jint \<Rightarrow> jint \<Rightarrow> jint
    \<Rightarrow> error_kind + jstring \<times> world" where
  "trackMotionNative env this inPath outPath x y width height = Inr (NewStringUTF [], env)"

text \<open>What a \<open>jstring\<close> method hands back to Java, without the state.\<close>

definition returned :: "error_kind + jstring \<times> world \<Rightarrow> error_kind + jstring" where
  "returned r = map_sum id fst r"

subsection \<open>The boundary as Java sees it\<close>

text \<open>
  A call of one of the eleven native methods, with the arguments Java passes. \<open>invoke\<close>
  runs the C++ function the JNI name binds to it; a \<open>void\<close> method hands back no value
  (\<open>None\<close>), a \<open>jstring\<close> method its string.
\<close>

datatype native_call =
    GetVideoInfo jstring
  | TrimVideo jstring jstring jdouble jdouble
  | SplitVideo jstring jstring jstring jdouble
  | ApplyEffect jstring jstring jstring
  | ExportVideo jstring jstring jobject
  | MixAudio jobjectArray jstring
  | ApplyKeyframeEffect jstring jstring jstring jobjectArray
  | ApplyTextOverlay jstring jstring jstring jint jint jint jint
  | ApplyPiP jstring jstring jstring jint jint jint jint
  | ApplySpeedRamp jstring jstring jstring
  | TrackMotion jstring jstring jint jint jint jint

definition void_result :: "error_kind + world \<Rightarrow> error_kind + jobject option \<times> world" where
  "void_result r = map_sum id (\<lambda>env'. (None, env')) r"

definition jstring_result :: "error_kind + jstring \<times> world \<Rightarrow> error_kind + jobject option \<times> world" where
  "jstring_result r = map_sum id (\<lambda>(s, env'). (Some s, env')) r"

fun invoke :: "world \<Rightarrow> jobject \<Rightarrow> native_call \<Rightarrow> error_kind + jobject option \<times> world" where
  "invoke env this (GetVideoInfo filePath) =
     jstring_result (getVideoInfoNative env this filePath)"
| "invoke env this (TrimVideo inPath outPath start end) =
     void_result (trimVideoNative env this inPath outPath start end)"
| "invoke env this (SplitVideo inPath outPath1 outPath2 splitPoint) =
     void_result (splitVideoNative env this inPath outPath1 outPath2 splitPoint)"
| "invoke env this (ApplyEffect inPath outPath effect) =
     void_result (applyEffectNative env this inPath outPath effect)"
| "invoke env this (ExportVideo inPath outPath preset) =
     void_result (exportVideoNative env this inPath outPath preset)"
| "invoke env this (MixAudio inPaths outPath) =
     void_result (mixAudioNative env this inPaths outPath)"
| "invoke env this (ApplyKeyframeEffect inPath outPath property keyframes) =
     void_result (applyKeyframeEffectNative env this inPath outPath property keyframes)"
| "invoke env this (ApplyTextOverlay inPath outPath text x y fontSize color) =
     void_result (applyTextOverlayNative env this inPath outPath text x y fontSize color)"
| "invoke env this (ApplyPiP backgroundPath foregroundPath outPath x y w h) =
     void_result (applyPiPNative env this backgroundPath foregroundPath outPath x y w h)"
| "invoke env this (ApplySpeedRamp inPath outPath speedMap) =
     void_result (applySpeedRampNative env this inPath outPath speedMap)"
| "invoke env this (TrackMotion inPath outPath x y w h) =
     jstring_result (trackMotionNative env this inPath outPath x y w h)"

text \<open>The declared return type of each method: \<open>void\<close> for nine, \<open>jstring\<close> for two.\<close>

fun returns_void :: "native_call \<Rightarrow> bool" where
  "returns_void (GetVideoInfo _) = False"
| "returns_void (TrackMotion _ _ _ _ _ _) = False"
| "returns_void _ = True"

text \<open>
  A silent no-op: the call came back with no value and no failure, and the files are as
  they were.
\<close>

fun silent_noop :: "world \<Rightarrow> error_kind + jobject option \<times> world \<Rightarrow> bool" where
  "silent_noop env (Inr (None, env')) = (files env' = files env)"
| "silent_noop env _ = False"

fun is_string_result :: "error_kind + jobject option \<times> world \<Rightarrow> bool" where
  "is_string_result (Inr (Some (JString s), env')) = True"
| "is_string_result _ = False"

subsection \<open>Vocabulary of the claims on trim, split and effects\<close>

text \<open>
  A trim range is valid for a file of duration \<open>d\<close> when \<open>0 \<le> start < end \<le> d\<close>, and
  invalid when \<open>start \<ge> end\<close> or one of the two lies outside \<open>[0, d]\<close>; a value that is
  no finite number lies in no interval.
\<close>

fun valid_range :: "rat \<Rightarrow> jdouble \<Rightarrow> jdouble \<Rightarrow> bool" where
  "valid_range d (Finite s) (Finite e) = (0 \<le> s \<and> s < e \<and> e \<le> d)"
| "valid_range d _ _ = False"

fun invalid_range :: "rat \<Rightarrow> jdouble \<Rightarrow> jdouble \<Rightarrow> bool" where
  "invalid_range d (Finite s) (Finite e) = (s \<ge> e \<or> s < 0 \<or> d < s \<or> e < 0 \<or> d < e)"
| "invalid_range d _ _ = True"

text \<open>
  The output a trim is said to produce: after the call a file stands at the output path,
  and its duration is \<open>end - start\<close> up to one frame interval.
\<close>

fun trim_output_ok :: "error_kind + world \<Rightarrow> string \<Rightarrow> jdouble \<Rightarrow> jdouble \<Rightarrow> bool" where
  "trim_output_ok (Inr env') outPath (Finite s) (Finite e) =
     (case files env' outPath of
        None \<Rightarrow> False
      | Some m \<Rightarrow> \<bar>duration m - (e - s)\<bar> \<le> 1 / frameRate m)"
| "trim_output_ok _ outPath _ _ = False"

text \<open>A split point lies strictly inside a file of duration \<open>d\<close>.\<close>

fun strictly_inside :: "rat \<Rightarrow> jdouble \<Rightarrow> bool" where
  "strictly_inside d (Finite p) = (0 < p \<and> p < d)"
| "strictly_inside d _ = False"

text \<open>
  The output a split is said to produce: after the call two files stand at the two output
  paths, of durations \<open>p\<close> and \<open>d - p\<close>, so that put end to end they last \<open>d\<close> again.
\<close>

fun split_output_ok :: "error_kind + world \<Rightarrow> string \<Rightarrow> string \<Rightarrow> rat \<Rightarrow> jdouble \<Rightarrow> bool" where
  "split_output_ok (Inr env') outPath1 outPath2 d (Finite p) =
     (case files env' outPath1 of
        None \<Rightarrow> False
      | Some a \<Rightarrow>
          (case files env' outPath2 of
             None \<Rightarrow> False
           | Some b \<Rightarrow> duration a = p \<and> duration b = d - p \<and> duration a + duration b = d))"
| "split_output_ok _ outPath1 outPath2 d _ = False"

text \<open>
  The effect names of the commented-out helper \<open>apply_filter_chain\<close> (lines 7 to 15 of the
  source); the compiled code compares \<open>effect\<close> with none of them.
\<close>

definition supported_effects :: "string list" where
  "supported_effects = [''grayscale'', ''sepia'', ''invert'', ''oldfilm'']"

text \<open>
  Applying an effect twice, as a caller does it: the output path of the first call is the
  input path of the second; a failure of the first call ends the run.
\<close>

definition applyEffectTwice ::
  "world \<Rightarrow> jobject \<Rightarrow> jstring \<Rightarrow> jstring \<Rightarrow> jstring \<Rightarrow> jstring \<Rightarrow> error_kind + world" where
  "applyEffectTwice env this inPath midPath outPath effect =
     (case applyEffectNative env this inPath midPath effect of
        Inl k \<Rightarrow> Inl k
      | Inr env1 \<Rightarrow> applyEffectNative env1 this midPath outPath effect)"

subsection \<open>Concrete inputs\<close>

text \<open>Two one-pixel clips at one frame per second, of 10 and of 20 seconds.\<close>

definition clip10 :: media where
  "clip10 = \<lparr>duration = 10, frameWidth = 1, frameHeight = 1, frameRate = 1,
             frames = replicate 10 [(200, 100, 50)]\<rparr>"

definition clip20 :: media where
  "clip20 = \<lparr>duration = 20, frameWidth = 1, frameHeight = 1, frameRate = 1,
             frames = replicate 20 [(200, 100, 50)]\<rparr>"

text \<open>A file system holding the one file \<open>in.mp4\<close>.\<close>

definition env10 :: world where
  "env10 = \<lparr>files = [''in.mp4'' \<mapsto> clip10]\<rparr>"

definition env20 :: world where
  "env20 = \<lparr>files = [''in.mp4'' \<mapsto> clip20]\<rparr>"

section \<open>The stubs\<close>

lemmas native_defs =
  getVideoInfoNative_def trimVideoNative_def splitVideoNative_def applyEffectNative_def
  exportVideoNative_def mixAudioNative_def applyKeyframeEffectNative_def
  applyTextOverlayNative_def applyPiPNative_def applySpeedRampNative_def
  trackMotionNative_def NewStringUTF_def

text \<open>
  C1: every exposed native entry point is an empty stub. For every input, each of the nine
  void operations returns normally with the state it was given, and the two string
  operations return the placeholder constants \<open>"Duration: 0"\<close> and \<open>""\<close>, also with the
  state unchanged: no decoding, filtering, composition or encoding takes place.
\<close>

theorem entry_points_are_stubs:
  "getVideoInfoNative env this filePath = Inr (JString ''Duration: 0'', env)
   \<and> trimVideoNative env this inPath outPath start end = Inr env
   \<and> splitVideoNative env this inPath outPath1 outPath2 splitPoint = Inr env
   \<and> applyEffectNative env this inPath outPath effect = Inr env
   \<and> exportVideoNative env this inPath outPath preset = Inr env
   \<and> mixAudioNative env this inPaths outPath = Inr env
   \<and> applyKeyframeEffectNative env this inPath outPath property keyframes = Inr env
   \<and> applyTextOverlayNative env this inPath outPath text x y fontSize color = Inr env
   \<and> applyPiPNative env this backgroundPath foregroundPath outPath x y width height = Inr env
   \<and> applySpeedRampNative env this inPath outPath speedMap = Inr env
   \<and> trackMotionNative env this inPath outPath x y width height = Inr (JString [], env)"
  by (simp add: native_defs)

text \<open>
  C9: \<open>getVideoInfoNative\<close> is a constant function of its arguments. Any two runs, on any
  two states, receivers and file paths, return the same string, which is
  \<open>"Duration: 0"\<close>: the result tells nothing about the path or the file it names.
\<close>

theorem getVideoInfo_constant:
  "returned (getVideoInfoNative env1 this1 filePath1)
     = returned (getVideoInfoNative env2 this2 filePath2)
   \<and> returned (getVideoInfoNative env1 this1 filePath1) = Inr (JString ''Duration: 0'')"
  by (simp add: getVideoInfoNative_def NewStringUTF_def returned_def)

text \<open>
  C10: for every input, each of the nine void operations, called across the boundary,
  comes back with no value and with the state it was given: no file is created or
  modified at any path, an output path included, and nothing else happens.
\<close>

theorem void_operations_change_nothing:
  "invoke env this (TrimVideo inPath outPath start end) = Inr (None, env)
   \<and> invoke env this (SplitVideo inPath outPath1 outPath2 splitPoint) = Inr (None, env)
   \<and> invoke env this (ApplyEffect inPath outPath effect) = Inr (None, env)
   \<and> invoke env this (ExportVideo inPath outPath preset) = Inr (None, env)
   \<and> invoke env this (MixAudio inPaths outPath) = Inr (None, env)
   \<and> invoke env this (ApplyKeyframeEffect inPath outPath property keyframes) = Inr (None, env)
   \<and> invoke env this (ApplyTextOverlay inPath outPath text x y fontSize color) = Inr (None, env)
   \<and> invoke env this (ApplyPiP backgroundPath foregroundPath outPath x y w h) = Inr (None, env)
   \<and> invoke env this (ApplySpeedRamp inPath outPath speedMap) = Inr (None, env)"
  by (simp add: native_defs void_result_def)

section \<open>Where the design of the specification and the stubs part\<close>

subsection \<open>Results and failures at the boundary\<close>

text \<open>
  C2 as stated (no boundary operation is a silent no-op) fails: trimming \<open>in.mp4\<close> to
  \<open>[2, 5]\<close> comes back with no result and no failure, and the files are as before.
\<close>

theorem boundary_silent_noop_counterexample:
  "silent_noop env10
     (invoke env10 JNull
        (TrimVideo (JString ''in.mp4'') (JString ''out.mp4'') (Finite 2) (Finite 5)))"
  by (simp add: trimVideoNative_def void_result_def)

text \<open>
  C2, amended: for every input, no boundary operation fails with any failure kind; the
  two string operations (getVideoInfo, trackMotion) return a string result, and each of
  the nine void operations is a silent no-op: no result, no failure, files unchanged.
\<close>

theorem boundary_results:
  "silent_noop env (invoke env this c) = returns_void c
   \<and> is_string_result (invoke env this c) = (\<not> returns_void c)
   \<and> invoke env this c \<noteq> Inl k"
  by (cases c) (simp_all add: native_defs void_result_def jstring_result_def)

subsection \<open>getVideoInfo\<close>

text \<open>
  C3 as stated (the result reflects the media file at the path) fails: with a clip of 10
  seconds at \<open>in.mp4\<close> in one file system and a clip of 20 seconds there in another, the
  two results are the same string.
\<close>

theorem getVideoInfo_reflects_file_counterexample:
  "files env10 ''in.mp4'' = Some clip10
   \<and> files env20 ''in.mp4'' = Some clip20
   \<and> duration clip10 \<noteq> duration clip20
   \<and> returned (getVideoInfoNative env10 JNull (JString ''in.mp4''))
       = returned (getVideoInfoNative env20 JNull (JString ''in.mp4''))"
  by (simp add: env10_def env20_def clip10_def clip20_def getVideoInfoNative_def returned_def)

text \<open>
  C3, amended: for every file path given to getVideoInfo, the returned string is the
  placeholder \<open>"Duration: 0"\<close>, whatever stands at that path: any media file \<open>f = Some m\<close>
  or no file at all (\<open>f = None\<close>).
\<close>

theorem getVideoInfo_placeholder:
  "returned (getVideoInfoNative (env\<lparr>files := (files env)(path := f)\<rparr>) this (JString path))
     = Inr (JString ''Duration: 0'')"
  by (simp add: getVideoInfoNative_def NewStringUTF_def returned_def)

subsection \<open>trim\<close>

text \<open>
  C4 as stated (an invalid range fails with InvalidRange) fails: on the clip of 10
  seconds, \<open>start = 5\<close> and \<open>end = 2\<close> have \<open>start \<ge> end\<close>, and the call does not fail
  with InvalidRange.
\<close>

theorem trim_invalid_range_counterexample:
  "files env10 ''in.mp4'' = Some clip10
   \<and> invalid_range (duration clip10) (Finite 5) (Finite 2)
   \<and> trimVideoNative env10 JNull (JString ''in.mp4'') (JString ''out.mp4'') (Finite 5) (Finite 2)
       \<noteq> Inl InvalidRange"
  by (simp add: env10_def clip10_def trimVideoNative_def)

text \<open>
  C4, amended: for every input where \<open>start \<ge> end\<close>, or \<open>start\<close> or \<open>end\<close> lies outside
  \<open>[0, duration]\<close>, the trim operation does not fail: it returns normally and leaves the
  state as it was.
\<close>

theorem trim_invalid_range_returns:
  "files env inPath = Some m \<Longrightarrow> invalid_range (duration m) start end \<Longrightarrow>
   trimVideoNative env this (JString inPath) (JString outPath) start end = Inr env"
  by (simp add: trimVideoNative_def)

theorem trim_invalid_range_returns_witness:
  "files env10 ''in.mp4'' = Some clip10
   \<and> invalid_range (duration clip10) (Finite 5) (Finite 2)
   \<and> trimVideoNative env10 JNull (JString ''in.mp4'') (JString ''out.mp4'') (Finite 5) (Finite 2)
       = Inr env10"
proof -
  have f: "files env10 ''in.mp4'' = Some clip10"
    by (simp add: env10_def)
  have i: "invalid_range (duration clip10) (Finite 5) (Finite 2)"
    by (simp add: clip10_def)
  from trim_invalid_range_returns [OF f i] f i show ?thesis
    by simp
qed

text \<open>
  C5 as stated (a valid range yields an output of duration \<open>end - start\<close>) fails: on the
  clip of 10 seconds the range \<open>[2, 5]\<close> is valid, and after the call no file of about 3
  seconds stands at \<open>out.mp4\<close> (no file stands there at all).
\<close>

theorem trim_valid_range_counterexample:
  "files env10 ''in.mp4'' = Some clip10
   \<and> valid_range (duration clip10) (Finite 2) (Finite 5)
   \<and> \<not> trim_output_ok
         (trimVideoNative env10 JNull (JString ''in.mp4'') (JString ''out.mp4'') (Finite 2) (Finite 5))
         ''out.mp4'' (Finite 2) (Finite 5)"
  by (simp add: env10_def clip10_def trimVideoNative_def)

text \<open>
  C5, amended: for every media file and every valid pair with
  \<open>0 \<le> start < end \<le> duration\<close>, the trim operation returns normally and produces no
  output: the state is as it was, so the output path holds what it held before.
\<close>

theorem trim_valid_range_no_output:
  "files env inPath = Some m \<Longrightarrow> valid_range (duration m) start end \<Longrightarrow>
   trimVideoNative env this (JString inPath) (JString outPath) start end = Inr env"
  by (simp add: trimVideoNative_def)

theorem trim_valid_range_no_output_witness:
  "files env10 ''in.mp4'' = Some clip10
   \<and> valid_range (duration clip10) (Finite 2) (Finite 5)
   \<and> trimVideoNative env10 JNull (JString ''in.mp4'') (JString ''out.mp4'') (Finite 2) (Finite 5)
       = Inr env10
   \<and> files env10 ''out.mp4'' = None"
proof -
  have f: "files env10 ''in.mp4'' = Some clip10"
    by (simp add: env10_def)
  have v: "valid_range (duration clip10) (Finite 2) (Finite 5)"
    by (simp add: clip10_def)
  have n: "files env10 ''out.mp4'' = None"
    by (simp add: env10_def)
  from trim_valid_range_no_output [OF f v] f v n show ?thesis
    by simp
qed

subsection \<open>split\<close>

text \<open>
  C6 as stated (split yields two segments that put end to end last as long as the
  original) fails: on the clip of 10 seconds the point 4 lies strictly inside, and after
  the call the two output paths do not hold segments of 4 and 6 seconds (they hold
  nothing).
\<close>

theorem split_roundtrip_counterexample:
  "files env10 ''in.mp4'' = Some clip10
   \<and> strictly_inside (duration clip10) (Finite 4)
   \<and> \<not> split_output_ok
         (splitVideoNative env10 JNull (JString ''in.mp4'') (JString ''a.mp4'') (JString ''b.mp4'')
            (Finite 4))
         ''a.mp4'' ''b.mp4'' (duration clip10) (Finite 4)"
  by (simp add: env10_def clip10_def splitVideoNative_def)

text \<open>
  C6, amended: for every media file and every split point strictly inside its duration,
  split returns normally and produces no segment: the state is as it was, so both output
  paths hold what they held before and there is nothing to put end to end.
\<close>

theorem split_no_output:
  "files env inPath = Some m \<Longrightarrow> strictly_inside (duration m) splitPoint \<Longrightarrow>
   splitVideoNative env this (JString inPath) (JString outPath1) (JString outPath2) splitPoint
     = Inr env"
  by (simp add: splitVideoNative_def)

theorem split_no_output_witness:
  "files env10 ''in.mp4'' = Some clip10
   \<and> strictly_inside (duration clip10) (Finite 4)
   \<and> splitVideoNative env10 JNull (JString ''in.mp4'') (JString ''a.mp4'') (JString ''b.mp4'')
        (Finite 4) = Inr env10
   \<and> files env10 ''a.mp4'' = None \<and> files env10 ''b.mp4'' = None"
proof -
  have f: "files env10 ''in.mp4'' = Some clip10"
    by (simp add: env10_def)
  have p: "strictly_inside (duration clip10) (Finite 4)"
    by (simp add: clip10_def)
  have n: "files env10 ''a.mp4'' = None \<and> files env10 ''b.mp4'' = None"
    by (simp add: env10_def)
  from split_no_output [OF f p] f p n show ?thesis
    by simp
qed

subsection \<open>Effects\<close>

text \<open>
  C7 as stated (grayscale twice is grayscale once, sepia twice differs from sepia once on
  some frame) fails in its second half: there is no state, receiver and file on which
  applying sepia in place twice gives another outcome than applying it once.
\<close>

theorem sepia_twice_differs_counterexample:
  "\<not> (\<exists>env this path.
        applyEffectTwice env this (JString path) (JString path) (JString path) (JString ''sepia'')
          \<noteq> applyEffectNative env this (JString path) (JString path) (JString ''sepia''))"
  by (simp add: applyEffectTwice_def applyEffectNative_def)

text \<open>
  C7, amended: applying an effect twice yields the same as applying it once, for every
  effect name, grayscale and sepia alike, and every file: both are idempotent, since each
  application leaves every frame as it is.
\<close>

theorem effect_twice_is_once:
  "applyEffectTwice env this inPath midPath outPath effect
     = applyEffectNative env this inPath midPath effect
   \<and> applyEffectNative env this inPath midPath effect = Inr env"
  by (simp add: applyEffectTwice_def applyEffectNative_def)

text \<open>
  C8 as stated (an unknown effect name fails with UnsupportedFilter) fails: \<open>sparkle\<close> is
  none of the supported names, and applying it does not fail with UnsupportedFilter.
\<close>

theorem unknown_effect_counterexample:
  "''sparkle'' \<notin> set supported_effects
   \<and> applyEffectNative env10 JNull (JString ''in.mp4'') (JString ''out.mp4'') (JString ''sparkle'')
       \<noteq> Inl UnsupportedFilter"
  by (simp add: supported_effects_def applyEffectNative_def)

text \<open>
  C8, amended: for every input path and output path, applying an effect whose name is
  outside the supported set does not fail: it returns normally at once, and no output
  file is created at the output path (the state is as it was).
\<close>

theorem unknown_effect_no_output:
  "effect \<notin> set supported_effects \<Longrightarrow>
   applyEffectNative env this inPath (JString outPath) (JString effect) = Inr env
   \<and> map_sum id (\<lambda>env'. files env' outPath)
       (applyEffectNative env this inPath (JString outPath) (JString effect))
       = Inr (files env outPath)"
  by (simp add: applyEffectNative_def)

theorem unknown_effect_no_output_witness:
  "''sparkle'' \<notin> set supported_effects
   \<and> applyEffectNative env10 JNull (JString ''in.mp4'') (JString ''out.mp4'') (JString ''sparkle'')
       = Inr env10
   \<and> files env10 ''out.mp4'' = None"
proof -
  have u: "''sparkle'' \<notin> set supported_effects"
    by (simp add: supported_effects_def)
  have n: "files env10 ''out.mp4'' = None"
    by (simp add: env10_def)
  from unknown_effect_no_output [OF u, of env10 JNull "JString ''in.mp4''" "''out.mp4''"] u n
  show ?thesis
    by simp
qed

end
